theory Spec2Isabelle
  imports Main
begin

section \<open>The document store\<close>

text \<open>
  The team library reads and writes five tables of a document store. A table is the list
  of its rows in creation order, which is the order an index range scan
  (\<^verbatim>\<open>withIndex(...).collect()\<close>) returns them in. Only the fields the library reads
  or writes are kept. Identifiers are numbers; the store hands out \<open>next_id\<close> on insert.
\<close>

type_synonym user_id = nat
type_synonym competition_id = nat
type_synonym team_id = nat
type_synonym participant_id = nat
type_synonym join_request_id = nat
type_synonym join_message_id = nat

record user_doc =
  u_id :: user_id

record competition_doc =
  c_id :: competition_id

record team_doc =
  t_id :: team_id
  competition :: competition_id

record participant_doc =
  p_id :: participant_id
  p_user :: user_id
  p_team :: team_id

record join_request_doc =
  jr_id :: join_request_id
  jr_team :: team_id
  jr_user :: user_id
  userConsent :: bool
  teamConsent :: bool

record join_message_doc =
  jm_id :: join_message_id
  join_request :: join_request_id
  sender :: user_id
  message :: string

record db =
  competitions :: "competition_doc list"
  teams :: "team_doc list"
  participants :: "participant_doc list"
  join_requests :: "join_request_doc list"
  join_messages :: "join_message_doc list"
  next_id :: nat

text \<open>
  \<^verbatim>\<open>RequestValidity\<close> is imported from \<^verbatim>\<open>lib/shared\<close>; its members are the seven the
  validator returns and the specification lists.
\<close>

datatype RequestValidity = VALID | BACKWARDS | FULL | COMMITTED | ACCEPTED | INVITED | REQUESTED

text \<open>
  The errors thrown: \<^verbatim>\<open>ConvexError('The user is not in the competition')\<close>,
  \<^verbatim>\<open>ConvexError('An internal server error occurred')\<close>,
  \<^verbatim>\<open>ConvexError({ code: 404, message: 'The team does not exist' })\<close>, and the failure of
  the identity resolver.
\<close>

datatype error = UserNotInCompetition | InternalServerError | TeamDoesNotExist | Unauthenticated

subsection \<open>Reads\<close>

definition get_team :: "db \<Rightarrow> team_id \<Rightarrow> team_doc option" where
  "get_team db i = find (\<lambda>t. t_id t = i) (teams db)"

definition get_competition :: "db \<Rightarrow> competition_id \<Rightarrow> competition_doc option" where
  "get_competition db i = find (\<lambda>c. c_id c = i) (competitions db)"

definition participants_by_user :: "db \<Rightarrow> user_id \<Rightarrow> participant_doc list" where
  "participants_by_user db u = filter (\<lambda>p. p_user p = u) (participants db)"

definition participants_by_team :: "db \<Rightarrow> team_id \<Rightarrow> participant_doc list" where
  "participants_by_team db t = filter (\<lambda>p. p_team p = t) (participants db)"

definition join_requests_by_team :: "db \<Rightarrow> team_id \<Rightarrow> join_request_doc list" where
  "join_requests_by_team db t = filter (\<lambda>r. jr_team r = t) (join_requests db)"

subsection \<open>Writes\<close>

text \<open>
  \<^verbatim>\<open>db.insert\<close> appends a row under a new identifier and returns the identifier;
  \<^verbatim>\<open>db.delete\<close> removes the row of an identifier; \<^verbatim>\<open>db.patch\<close> overwrites the given
  fields of the row of an identifier. The library deletes and patches only rows it has
  just read from the same state, so the store's own failure on a missing row does not
  arise.
\<close>

definition insert_join_request ::
  "db \<Rightarrow> team_id \<Rightarrow> user_id \<Rightarrow> bool \<Rightarrow> bool \<Rightarrow> join_request_id \<times> db" where
  "insert_join_request db t u uc tc =
     (next_id db,
      db\<lparr>join_requests := join_requests db @
            [\<lparr>jr_id = next_id db, jr_team = t, jr_user = u, userConsent = uc, teamConsent = tc\<rparr>],
         next_id := Suc (next_id db)\<rparr>)"

definition insert_join_message ::
  "db \<Rightarrow> join_request_id \<Rightarrow> user_id \<Rightarrow> string \<Rightarrow> join_message_id \<times> db" where
  "insert_join_message db r s m =
     (next_id db,
      db\<lparr>join_messages := join_messages db @
            [\<lparr>jm_id = next_id db, join_request = r, sender = s, message = m\<rparr>],
         next_id := Suc (next_id db)\<rparr>)"

definition delete_join_request :: "db \<Rightarrow> join_request_id \<Rightarrow> db" where
  "delete_join_request db i = db\<lparr>join_requests := filter (\<lambda>r. jr_id r \<noteq> i) (join_requests db)\<rparr>"

definition delete_team :: "db \<Rightarrow> team_id \<Rightarrow> db" where
  "delete_team db i = db\<lparr>teams := filter (\<lambda>t. t_id t \<noteq> i) (teams db)\<rparr>"

definition patch_participant_team :: "db \<Rightarrow> participant_id \<Rightarrow> team_id \<Rightarrow> db" where
  "patch_participant_team db i t =
     db\<lparr>participants := map (\<lambda>p. if p_id p = i then p\<lparr>p_team := t\<rparr> else p) (participants db)\<rparr>"

subsection \<open>Array helpers of the host language\<close>

text \<open>\<^verbatim>\<open>Array.prototype.findIndex\<close>: the index of the first match, or \<open>-1\<close>.\<close>

fun findIndex :: "('a \<Rightarrow> bool) \<Rightarrow> 'a list \<Rightarrow> int" where
  "findIndex P [] = - 1"
| "findIndex P (x # xs) =
     (if P x then 0 else (let i = findIndex P xs in if i = - 1 then - 1 else i + 1))"

text \<open>\<^verbatim>\<open>.first()\<close> of a query: the first row or null.\<close>

definition first :: "'a list \<Rightarrow> 'a option" where
  "first xs = (case xs of [] \<Rightarrow> None | x # _ \<Rightarrow> Some x)"

section \<open>Helpers that are imported\<close>

text \<open>
  Modelled from the spec: \<^verbatim>\<open>convertToUserDocumentArray\<close> of \<^verbatim>\<open>./helpers\<close> is not among
  the sources. The specification (Team Directory) describes it as a batch lookup that
  resolves the member identifiers to User records and preserves the order of the
  Participant rows. A User record is kept as its identifier, the one field the library
  reads; User rows are never deleted, so every identifier resolves.
\<close>

definition convertToUserDocumentArray :: "db \<Rightarrow> user_id list \<Rightarrow> user_doc list" where
  "convertToUserDocumentArray db ids = map (\<lambda>i. \<lparr>u_id = i\<rparr>) ids"

text \<open>
  Modelled from the spec: \<^verbatim>\<open>fulfillAndFlatten\<close> of \<^verbatim>\<open>./helpers\<close> is not among the
  sources. It awaits the lists its argument promises and flattens them in order: the
  listing it serves drops the skipped entries and keeps the storage order of the others.
\<close>

definition fulfillAndFlatten :: "'a list list \<Rightarrow> 'a list" where
  "fulfillAndFlatten xss = concat xss"

text \<open>
  Modelled from the spec: \<^verbatim>\<open>verifyUser\<close> of \<^verbatim>\<open>../user\<close> is not among the sources. The
  specification (Identity Resolver) says that it resolves the authentication context to
  the canonical user record and fails if there is none. The authentication context is
  kept as the identity it carries, if any.
\<close>

type_synonym auth = "user_doc option"

definition verifyUser :: "db \<Rightarrow> auth \<Rightarrow> error + user_doc" where
  "verifyUser db a = (case a of None \<Rightarrow> Inl Unauthenticated | Some u \<Rightarrow> Inr u)"

section \<open>The team library\<close>

subsection \<open>recordJoinRequest\<close>

text \<open>
  A function that writes returns its result together with the store as it has left it.
  A throw ends the function with the writes issued so far still in the store: the
  library has no handler that undoes them.
\<close>

definition recordJoinRequest ::
  "db \<Rightarrow> auth \<Rightarrow> team_id \<Rightarrow> user_id \<Rightarrow> string \<Rightarrow> bool \<Rightarrow> (error + join_request_id) \<times> db" where
  "recordJoinRequest db a inviterTeamId joinerId pitch tc =
     (case verifyUser db a of
        Inl e \<Rightarrow> (Inl e, db)
      | Inr user \<Rightarrow>
          (let (newJoinRequest, db1) = insert_join_request db inviterTeamId joinerId (\<not> tc) tc;
               (newMessage, db2) = insert_join_message db1 newJoinRequest (u_id user) pitch
           in (Inr newJoinRequest, db2)))"

subsection \<open>listOwnParticipations\<close>

record participation_info =
  pi_participation :: participant_doc
  pi_team :: team_doc
  pi_competition :: competition_doc

definition listOwnParticipations :: "db \<Rightarrow> user_doc \<Rightarrow> participation_info list" where
  "listOwnParticipations db user =
     fulfillAndFlatten
       (map (\<lambda>item.
               case get_team db (p_team item) of
                 None \<Rightarrow> []
               | Some team \<Rightarrow>
                   (case get_competition db (competition team) of
                      None \<Rightarrow> []
                    | Some comp_doc \<Rightarrow>
                        [\<lparr>pi_participation = item, pi_team = team, pi_competition = comp_doc\<rparr>]))
            (participants_by_user db (u_id user)))"

subsection \<open>verifyTeam\<close>

text \<open>The team view spreads the team row and adds the members and the join requests.\<close>

record team_view = team_doc +
  members :: "user_doc list"
  joinRequests :: "join_request_doc list"

definition verifyTeam :: "db \<Rightarrow> team_id \<Rightarrow> error + team_view" where
  "verifyTeam db teamId =
     (case get_team db teamId of
        None \<Rightarrow> Inl TeamDoesNotExist
      | Some team \<Rightarrow>
          Inr \<lparr>t_id = t_id team, competition = competition team,
               members = convertToUserDocumentArray db (map p_user (participants_by_team db teamId)),
               joinRequests = join_requests_by_team db teamId\<rparr>)"

subsection \<open>findTeamOfUser\<close>

record team_of_user = team_view +
  userMembership :: participant_doc

text \<open>The result \<open>false\<close> of the source is \<open>None\<close>.\<close>

definition findTeamOfUser :: "db \<Rightarrow> user_doc \<Rightarrow> competition_id \<Rightarrow> error + team_of_user option" where
  "findTeamOfUser db user comp_id =
     (case find (\<lambda>item. c_id (pi_competition item) = comp_id) (listOwnParticipations db user) of
        None \<Rightarrow> Inr None
      | Some currentParticipation \<Rightarrow>
          (case verifyTeam db (t_id (pi_team currentParticipation)) of
             Inl e \<Rightarrow> Inl e
           | Inr teamAndMembers \<Rightarrow>
               Inr (Some \<lparr>t_id = t_id teamAndMembers, competition = competition teamAndMembers,
                          members = members teamAndMembers,
                          joinRequests = joinRequests teamAndMembers,
                          userMembership = pi_participation currentParticipation\<rparr>)))"

subsection \<open>validateTeamJoinRequest\<close>

definition validateTeamJoinRequest :: "db \<Rightarrow> team_doc \<Rightarrow> user_doc \<Rightarrow> error + RequestValidity" where
  "validateTeamJoinRequest db inviterTeam joiner =
     (let inviterTeamParticipants = participants_by_team db (t_id inviterTeam);
          requestorMembership = findIndex (\<lambda>item. p_user item = u_id joiner) inviterTeamParticipants
      in if requestorMembership > - 1 then Inr BACKWARDS
         else if length inviterTeamParticipants \<ge> 4 then Inr FULL
         else
           (case findTeamOfUser db joiner (competition inviterTeam) of
              Inl e \<Rightarrow> Inl e
            | Inr None \<Rightarrow> Inl UserNotInCompetition
            | Inr (Some joinerTeam) \<Rightarrow>
                if length (members joinerTeam) > 1 then Inr COMMITTED
                else
                  (case find (\<lambda>item. jr_user item = u_id joiner)
                          (join_requests_by_team db (t_id inviterTeam)) of
                     None \<Rightarrow> Inr VALID
                   | Some joinRequest \<Rightarrow>
                       if teamConsent joinRequest \<and> userConsent joinRequest then Inr ACCEPTED
                       else if teamConsent joinRequest \<and> \<not> userConsent joinRequest then Inr INVITED
                       else if \<not> teamConsent joinRequest \<and> userConsent joinRequest then Inr REQUESTED
                       else Inr VALID)))"

subsection \<open>addUserToTeam\<close>

definition addUserToTeam :: "db \<Rightarrow> user_doc \<Rightarrow> team_doc \<Rightarrow> (error + unit) \<times> db" where
  "addUserToTeam db user invitingTeam =
     (let userToTeamJoinRequest =
            first (filter (\<lambda>r. jr_user r = u_id user) (join_requests_by_team db (t_id invitingTeam)));
          db1 = (case userToTeamJoinRequest of
                   None \<Rightarrow> db
                 | Some r \<Rightarrow> delete_join_request db (jr_id r))
      in case findTeamOfUser db1 user (competition invitingTeam) of
           Inl e \<Rightarrow> (Inl e, db1)
         | Inr None \<Rightarrow> (Inl UserNotInCompetition, db1)
         | Inr (Some teamOfJoiner) \<Rightarrow>
             (case find (\<lambda>item. p_user item = u_id user)
                     (participants_by_team db1 (t_id teamOfJoiner)) of
                None \<Rightarrow> (Inl InternalServerError, db1)
              | Some joinerParticipation \<Rightarrow>
                  (let db2 = patch_participant_team db1 (p_id joinerParticipation) (t_id invitingTeam)
                   in if length (members teamOfJoiner) = 1
                      then (Inr (), delete_team db2 (t_id teamOfJoiner))
                      else (Inr (), db2))))"

subsection \<open>validateCrossChatParticipation\<close>

definition validateCrossChatParticipation :: "db \<Rightarrow> join_request_doc \<Rightarrow> user_id \<Rightarrow> error + bool" where
  "validateCrossChatParticipation db joinRequestInfo viewer =
     (case verifyTeam db (jr_team joinRequestInfo) of
        Inl e \<Rightarrow> Inl e
      | Inr invitingTeam \<Rightarrow>
          Inr (list_ex (\<lambda>member. u_id member = viewer) (members invitingTeam)
               \<or> jr_user joinRequestInfo = viewer))"

section \<open>Notions used to state the properties\<close>

text \<open>
  A team identifier resolves in a competition when the team row exists, the row of the
  team's competition exists, and that competition is the given one: the entries the
  participation listing keeps, filtered as \<open>findTeamOfUser\<close> filters them.
\<close>

definition resolves :: "db \<Rightarrow> competition_id \<Rightarrow> team_id \<Rightarrow> bool" where
  "resolves db cid tid =
     (case get_team db tid of
        None \<Rightarrow> False
      | Some t \<Rightarrow> (case get_competition db (competition t) of
                    None \<Rightarrow> False
                  | Some c \<Rightarrow> c_id c = cid))"

text \<open>The first Participant row of a user whose team resolves in the competition.\<close>

definition ownParticipation :: "db \<Rightarrow> user_id \<Rightarrow> competition_id \<Rightarrow> participant_doc option" where
  "ownParticipation db u cid = find (\<lambda>p. p_user p = u \<and> resolves db cid (p_team p)) (participants db)"

text \<open>The view of the team a Participant row points at, with the row as the membership.\<close>

definition viewOf :: "db \<Rightarrow> participant_doc \<Rightarrow> team_of_user" where
  "viewOf db p =
     \<lparr>t_id = p_team p, competition = competition (the (get_team db (p_team p))),
      members = map (\<lambda>q. \<lparr>u_id = p_user q\<rparr>) (participants_by_team db (p_team p)),
      joinRequests = join_requests_by_team db (p_team p),
      userMembership = p\<rparr>"

text \<open>The join requests between a team and a user, in creation order.\<close>

definition requestsBetween :: "db \<Rightarrow> team_id \<Rightarrow> user_id \<Rightarrow> join_request_doc list" where
  "requestsBetween db t u = filter (\<lambda>r. jr_team r = t \<and> jr_user r = u) (join_requests db)"

text \<open>
  The store after the first step of \<open>addUserToTeam\<close>: the first join request between the
  team and the user, if there is one, has been deleted.
\<close>

definition withoutRequest :: "db \<Rightarrow> team_id \<Rightarrow> user_id \<Rightarrow> db" where
  "withoutRequest db t u =
     (case requestsBetween db t u of
        [] \<Rightarrow> db
      | r # _ \<Rightarrow> delete_join_request db (jr_id r))"

section \<open>Example states\<close>

text \<open>
  The scenario of the specification: user 1 alone in team 10, users 2 and 3 in team 20,
  both teams in competition 1.
\<close>

definition userA :: user_doc where "userA = \<lparr>u_id = 1\<rparr>"

definition userB :: user_doc where "userB = \<lparr>u_id = 2\<rparr>"

definition teamT1 :: team_doc where "teamT1 = \<lparr>t_id = 10, competition = 1\<rparr>"

definition teamT2 :: team_doc where "teamT2 = \<lparr>t_id = 20, competition = 1\<rparr>"

definition scenario :: db where
  "scenario =
     \<lparr>competitions = [\<lparr>c_id = 1\<rparr>],
      teams = [teamT1, teamT2],
      participants = [\<lparr>p_id = 100, p_user = 1, p_team = 10\<rparr>,
                      \<lparr>p_id = 101, p_user = 2, p_team = 20\<rparr>,
                      \<lparr>p_id = 102, p_user = 3, p_team = 20\<rparr>],
      join_requests = [],
      join_messages = [],
      next_id = 200\<rparr>"

text \<open>User 2 has invited user 1 into team 20.\<close>

definition invited :: db where
  "invited = snd (recordJoinRequest scenario (Some userB) 20 1 ''join us'' True)"

text \<open>User 1 has then asked to join team 20 through the recorder.\<close>

definition requestedToo :: db where
  "requestedToo = snd (recordJoinRequest invited (Some userA) 20 1 ''let me in'' False)"

text \<open>Team 20 with four members.\<close>

definition crowded :: db where
  "crowded = scenario\<lparr>participants := participants scenario @
                 [\<lparr>p_id = 103, p_user = 4, p_team = 20\<rparr>, \<lparr>p_id = 104, p_user = 5, p_team = 20\<rparr>]\<rparr>"

text \<open>The invitation stands, but the row of team 10 is gone: the participation of user 1 dangles.\<close>

definition stranded :: db where
  "stranded = invited\<lparr>teams := [teamT2]\<rparr>"

text \<open>The invitation stands, but the row of competition 1 is gone.\<close>

definition orphaned :: db where
  "orphaned = invited\<lparr>competitions := []\<rparr>"

text \<open>User 2 has left team 20 for team 10.\<close>

definition moved :: db where
  "moved = snd (addUserToTeam scenario userB teamT1)"

section \<open>Properties\<close>

subsection \<open>Lists and lookups\<close>

lemma findIndex_ge: "- 1 \<le> findIndex P xs"
  by (induction xs) (auto simp: Let_def)

lemma findIndex_found: "(findIndex P xs > - 1) = (\<exists>x\<in>set xs. P x)"
proof (induction xs)
  case Nil
  show ?case by simp
next
  case (Cons x xs)
  have "- 1 \<le> findIndex P xs" by (rule findIndex_ge)
  with Cons show ?case by (auto simp: Let_def)
qed

lemma find_filter: "find P (filter Q xs) = find (\<lambda>x. Q x \<and> P x) xs"
  by (induction xs) auto

lemma find_as_filter: "find P xs = (case filter P xs of [] \<Rightarrow> None | x # _ \<Rightarrow> Some x)"
  by (induction xs) auto

lemma get_team_None: "(get_team db i = None) = (\<forall>t\<in>set (teams db). t_id t \<noteq> i)"
  by (auto simp: get_team_def find_None_iff)

lemma get_team_Some_ex: "(\<exists>t. get_team db i = Some t) = (\<exists>t\<in>set (teams db). t_id t = i)"
  using get_team_None [of db i] by auto

lemma get_team_id: "get_team db i = Some t \<Longrightarrow> t_id t = i"
  by (auto simp: get_team_def find_Some_iff)

lemma get_competition_id: "get_competition db i = Some c \<Longrightarrow> c_id c = i"
  by (auto simp: get_competition_def find_Some_iff)

text \<open>The reads of the participation index depend on three tables only.\<close>

lemma same_tables:
  assumes "competitions db' = competitions db" "teams db' = teams db"
    "participants db' = participants db"
  shows "get_team db' = get_team db" "get_competition db' = get_competition db"
    "resolves db' = resolves db" "ownParticipation db' = ownParticipation db"
    "participants_by_team db' = participants_by_team db"
proof -
  show t: "get_team db' = get_team db"
    by (simp add: get_team_def fun_eq_iff assms)
  show c: "get_competition db' = get_competition db"
    by (simp add: get_competition_def fun_eq_iff assms)
  show r: "resolves db' = resolves db"
    by (simp add: resolves_def fun_eq_iff t c cong: option.case_cong)
  show "ownParticipation db' = ownParticipation db"
    by (simp add: ownParticipation_def fun_eq_iff r assms)
  show "participants_by_team db' = participants_by_team db"
    by (simp add: participants_by_team_def fun_eq_iff assms)
qed

lemma ownParticipation_join_requests:
  "ownParticipation (db\<lparr>join_requests := jrs\<rparr>) = ownParticipation db"
  by (rule same_tables) simp_all

lemma participants_by_team_join_requests:
  "participants_by_team (db\<lparr>join_requests := jrs\<rparr>) = participants_by_team db"
  by (rule same_tables) simp_all

subsection \<open>The participation index\<close>

lemma find_own_aux:
  "find (\<lambda>item. c_id (pi_competition item) = cid)
     (concat (map (\<lambda>item.
               case get_team db (p_team item) of
                 None \<Rightarrow> []
               | Some team \<Rightarrow>
                   (case get_competition db (competition team) of
                      None \<Rightarrow> []
                    | Some comp_doc \<Rightarrow>
                        [\<lparr>pi_participation = item, pi_team = team, pi_competition = comp_doc\<rparr>]))
            (filter (\<lambda>p. p_user p = u) ps)))
   = map_option (\<lambda>p. \<lparr>pi_participation = p, pi_team = the (get_team db (p_team p)),
                        pi_competition =
                          the (get_competition db (competition (the (get_team db (p_team p)))))\<rparr>)
       (find (\<lambda>p. p_user p = u \<and> resolves db cid (p_team p)) ps)"
  by (induction ps) (auto simp: resolves_def split: option.splits)

lemma find_current:
  "find (\<lambda>item. c_id (pi_competition item) = cid) (listOwnParticipations db user)
   = map_option (\<lambda>p. \<lparr>pi_participation = p, pi_team = the (get_team db (p_team p)),
                        pi_competition =
                          the (get_competition db (competition (the (get_team db (p_team p)))))\<rparr>)
       (ownParticipation db (u_id user) cid)"
  unfolding listOwnParticipations_def fulfillAndFlatten_def participants_by_user_def
    ownParticipation_def
  by (rule find_own_aux)

lemma ownParticipation_resolves:
  "ownParticipation db u cid = Some p \<Longrightarrow>
     p_user p = u \<and> resolves db cid (p_team p) \<and> p \<in> set (participants db)"
  by (auto simp: ownParticipation_def find_Some_iff)

lemma resolves_iff:
  "resolves db cid tid =
     (\<exists>t c. get_team db tid = Some t \<and> get_competition db (competition t) = Some c \<and>
            competition t = cid)"
  by (auto simp: resolves_def split: option.splits dest: get_competition_id)

lemma resolves_team:
  "resolves db cid tid \<Longrightarrow> \<exists>t. get_team db tid = Some t \<and> t_id t = tid \<and> competition t = cid"
  by (auto simp: resolves_iff dest: get_team_id)

lemma ownParticipation_None:
  "(ownParticipation db u cid = None) =
     (\<not> (\<exists>p\<in>set (participants db). p_user p = u \<and> resolves db cid (p_team p)))"
  by (auto simp: ownParticipation_def find_None_iff)

text \<open>
  \<open>findTeamOfUser\<close> never throws: the team it hands to \<open>verifyTeam\<close> has just been read.
  It returns the view of the team of the user's first resolving Participant row.
\<close>

lemma findTeamOfUser_char:
  "findTeamOfUser db user cid = Inr (map_option (viewOf db) (ownParticipation db (u_id user) cid))"
proof (cases "ownParticipation db (u_id user) cid")
  case None
  then show ?thesis by (simp add: findTeamOfUser_def find_current)
next
  case (Some p)
  from ownParticipation_resolves [OF Some] resolves_team
  obtain t where "get_team db (p_team p) = Some t" "t_id t = p_team p" by blast
  then show ?thesis
    by (simp add: findTeamOfUser_def find_current Some verifyTeam_def viewOf_def
        convertToUserDocumentArray_def)
qed

lemma viewOf_fields:
  "t_id (viewOf db p) = p_team p" "userMembership (viewOf db p) = p"
  "members (viewOf db p) = map (\<lambda>q. \<lparr>u_id = p_user q\<rparr>) (participants_by_team db (p_team p))"
  by (simp_all add: viewOf_def)

lemma members_viewOf: "length (members (viewOf db p)) = length (participants_by_team db (p_team p))"
  by (simp add: viewOf_def)

text \<open>
  The row \<open>addUserToTeam\<close> looks up again among the rows of the team is the membership
  \<open>findTeamOfUser\<close> has returned, so its internal-error branch is not taken.
\<close>

lemma find_first_same_team:
  assumes "find (\<lambda>p. p_user p = u \<and> G (p_team p)) ps = Some p"
  shows "find (\<lambda>q. p_team q = p_team p \<and> p_user q = u) ps = Some p"
  using assms
proof (induction ps)
  case Nil
  then show ?case by simp
next
  case (Cons a ps)
  show ?case
  proof (cases "p_user a = u \<and> G (p_team a)")
    case True
    with Cons.prems have "a = p" by simp
    with True show ?thesis by simp
  next
    case False
    with Cons.prems have f: "find (\<lambda>p. p_user p = u \<and> G (p_team p)) ps = Some p" by auto
    then have "G (p_team p)" by (auto simp: find_Some_iff)
    with False have "\<not> (p_team a = p_team p \<and> p_user a = u)" by auto
    with Cons.IH [OF f] show ?thesis by auto
  qed
qed

lemma joinerParticipation_found:
  assumes "ownParticipation db u cid = Some p"
  shows "find (\<lambda>item. p_user item = u) (participants_by_team db (p_team p)) = Some p"
  using find_first_same_team [of u "resolves db cid" "participants db" p] assms
  by (simp add: ownParticipation_def participants_by_team_def find_filter)

subsection \<open>The validator, step by step\<close>

lemma pair_request_found:
  "find (\<lambda>item. jr_user item = u) (join_requests_by_team db t) =
     (case requestsBetween db t u of [] \<Rightarrow> None | r # _ \<Rightarrow> Some r)"
  by (simp add: join_requests_by_team_def requestsBetween_def find_filter find_as_filter)

lemma validate_char:
  "validateTeamJoinRequest db inviterTeam joiner =
     (if \<exists>p\<in>set (participants db). p_team p = t_id inviterTeam \<and> p_user p = u_id joiner
      then Inr BACKWARDS
      else if 4 \<le> length (participants_by_team db (t_id inviterTeam)) then Inr FULL
      else
        (case ownParticipation db (u_id joiner) (competition inviterTeam) of
           None \<Rightarrow> Inl UserNotInCompetition
         | Some p \<Rightarrow>
             if 1 < length (participants_by_team db (p_team p)) then Inr COMMITTED
             else
               (case requestsBetween db (t_id inviterTeam) (u_id joiner) of
                  [] \<Rightarrow> Inr VALID
                | r # _ \<Rightarrow>
                    if teamConsent r \<and> userConsent r then Inr ACCEPTED
                    else if teamConsent r then Inr INVITED
                    else if userConsent r then Inr REQUESTED
                    else Inr VALID)))"
proof -
  have m: "(findIndex (\<lambda>item. p_user item = u_id joiner)
              (participants_by_team db (t_id inviterTeam)) > - 1)
        = (\<exists>p\<in>set (participants db). p_team p = t_id inviterTeam \<and> p_user p = u_id joiner)"
    by (auto simp: findIndex_found participants_by_team_def)
  show ?thesis
    unfolding validateTeamJoinRequest_def Let_def m findTeamOfUser_char pair_request_found
    by (simp add: members_viewOf split: option.splits list.splits)
qed

subsection \<open>The mutator, step by step\<close>

lemma withoutRequest_tables:
  "competitions (withoutRequest db t u) = competitions db"
  "teams (withoutRequest db t u) = teams db"
  "participants (withoutRequest db t u) = participants db"
  "join_messages (withoutRequest db t u) = join_messages db"
  "next_id (withoutRequest db t u) = next_id db"
  by (simp_all add: withoutRequest_def delete_join_request_def split: list.splits)

lemma first_pair:
  "first (filter (\<lambda>r. jr_user r = u) (join_requests_by_team db t)) =
     (case requestsBetween db t u of [] \<Rightarrow> None | r # _ \<Rightarrow> Some r)"
  by (simp add: first_def join_requests_by_team_def requestsBetween_def conj_commute)

lemma step1:
  "(case first (filter (\<lambda>r. jr_user r = u) (join_requests_by_team db t)) of
      None \<Rightarrow> db
    | Some r \<Rightarrow> delete_join_request db (jr_id r)) = withoutRequest db t u"
  by (simp add: first_pair withoutRequest_def split: list.splits)

lemma addUserToTeam_char:
  "addUserToTeam db user invitingTeam =
     (case ownParticipation db (u_id user) (competition invitingTeam) of
        None \<Rightarrow> (Inl UserNotInCompetition, withoutRequest db (t_id invitingTeam) (u_id user))
      | Some p \<Rightarrow>
          (Inr (),
           if length (participants_by_team db (p_team p)) = 1
           then delete_team (patch_participant_team (withoutRequest db (t_id invitingTeam) (u_id user))
                               (p_id p) (t_id invitingTeam)) (p_team p)
           else patch_participant_team (withoutRequest db (t_id invitingTeam) (u_id user))
                  (p_id p) (t_id invitingTeam)))"
proof -
  let ?db1 = "withoutRequest db (t_id invitingTeam) (u_id user)"
  note st = same_tables [of ?db1 db, OF withoutRequest_tables(1-3)]
  show ?thesis
  proof (cases "ownParticipation db (u_id user) (competition invitingTeam)")
    case None
    then show ?thesis
      by (simp add: addUserToTeam_def Let_def step1 findTeamOfUser_char st)
  next
    case (Some p)
    from joinerParticipation_found [OF Some]
    have "find (\<lambda>item. p_user item = u_id user) (participants_by_team db (p_team p)) = Some p" .
    with Some show ?thesis
      by (simp add: addUserToTeam_def Let_def step1 findTeamOfUser_char st viewOf_fields)
  qed
qed

lemma withoutRequest_between:
  "requestsBetween (withoutRequest db t u) t u =
     (case requestsBetween db t u of
        [] \<Rightarrow> []
      | r # rs \<Rightarrow> filter (\<lambda>x. jr_id x \<noteq> jr_id r) rs)"
proof (cases "requestsBetween db t u")
  case Nil
  then show ?thesis by (simp add: withoutRequest_def)
next
  case (Cons r rs)
  have w: "withoutRequest db t u = delete_join_request db (jr_id r)"
    by (simp add: withoutRequest_def Cons)
  have "requestsBetween (delete_join_request db (jr_id r)) t u =
          filter (\<lambda>x. jr_id x \<noteq> jr_id r) (requestsBetween db t u)"
    by (simp add: requestsBetween_def delete_join_request_def conj_commute)
  then show ?thesis
    by (simp add: w Cons)
qed

lemma patched_roster:
  "tid \<noteq> prior \<Longrightarrow>
   filter (\<lambda>q. p_team q = prior) (map (\<lambda>q. if p_id q = i then q\<lparr>p_team := tid\<rparr> else q) ps) =
   filter (\<lambda>q. p_id q \<noteq> i) (filter (\<lambda>q. p_team q = prior) ps)"
  by (induction ps) auto

subsection \<open>The example states, evaluated\<close>

lemmas example_defs = userA_def userB_def teamT1_def teamT2_def scenario_def

lemmas eval_defs = validate_char requestsBetween_def participants_by_team_def
  ownParticipation_def resolves_def get_team_def get_competition_def

lemma invited_eq:
  "invited = scenario\<lparr>join_requests :=
                 [\<lparr>jr_id = 200, jr_team = 20, jr_user = 1, userConsent = False, teamConsent = True\<rparr>],
               join_messages := [\<lparr>jm_id = 201, join_request = 200, sender = 2, message = ''join us''\<rparr>],
               next_id := 202\<rparr>"
  by (simp add: invited_def recordJoinRequest_def verifyUser_def insert_join_request_def
      insert_join_message_def example_defs)

lemma moved_eq:
  "moved = scenario\<lparr>participants := [\<lparr>p_id = 100, p_user = 1, p_team = 10\<rparr>,
                                      \<lparr>p_id = 101, p_user = 2, p_team = 10\<rparr>,
                                      \<lparr>p_id = 102, p_user = 3, p_team = 20\<rparr>]\<rparr>"
  by (simp add: moved_def addUserToTeam_char withoutRequest_def patch_participant_team_def
      eval_defs example_defs)

lemma own_team_of_userA:
  "findTeamOfUser scenario userA (competition teamT2) =
      Inr (Some \<lparr>t_id = 10, competition = 1, members = [\<lparr>u_id = 1\<rparr>],
                 joinRequests = [], userMembership = \<lparr>p_id = 100, p_user = 1, p_team = 10\<rparr>\<rparr>)"
  by (simp add: findTeamOfUser_char ownParticipation_def resolves_def viewOf_def
      participants_by_team_def join_requests_by_team_def
      get_team_def get_competition_def example_defs)

lemma own_team_of_userA_invited:
  "findTeamOfUser invited userA (competition teamT2) =
      Inr (Some \<lparr>t_id = 10, competition = 1, members = [\<lparr>u_id = 1\<rparr>],
                 joinRequests = [], userMembership = \<lparr>p_id = 100, p_user = 1, p_team = 10\<rparr>\<rparr>)"
  by (simp add: findTeamOfUser_char invited_eq ownParticipation_def resolves_def viewOf_def
      participants_by_team_def join_requests_by_team_def
      get_team_def get_competition_def example_defs)

lemma own_team_of_userB:
  "findTeamOfUser scenario userB (competition teamT1) =
      Inr (Some \<lparr>t_id = 20, competition = 1, members = [\<lparr>u_id = 2\<rparr>, \<lparr>u_id = 3\<rparr>],
                 joinRequests = [], userMembership = \<lparr>p_id = 101, p_user = 2, p_team = 20\<rparr>\<rparr>)"
  by (simp add: findTeamOfUser_char ownParticipation_def resolves_def viewOf_def
      participants_by_team_def join_requests_by_team_def
      get_team_def get_competition_def example_defs)

lemma requestedToo_eq:
  "requestedToo = scenario\<lparr>join_requests :=
                 [\<lparr>jr_id = 200, jr_team = 20, jr_user = 1, userConsent = False, teamConsent = True\<rparr>,
                  \<lparr>jr_id = 202, jr_team = 20, jr_user = 1, userConsent = True, teamConsent = False\<rparr>],
               join_messages :=
                 [\<lparr>jm_id = 201, join_request = 200, sender = 2, message = ''join us''\<rparr>,
                  \<lparr>jm_id = 203, join_request = 202, sender = 1, message = ''let me in''\<rparr>],
               next_id := 204\<rparr>"
  by (simp add: requestedToo_def invited_eq recordJoinRequest_def verifyUser_def
      insert_join_request_def insert_join_message_def example_defs)

lemma own_team_of_userA_requestedToo:
  "findTeamOfUser requestedToo userA (competition teamT2) =
      Inr (Some \<lparr>t_id = 10, competition = 1, members = [\<lparr>u_id = 1\<rparr>],
                 joinRequests = [], userMembership = \<lparr>p_id = 100, p_user = 1, p_team = 10\<rparr>\<rparr>)"
  by (simp add: findTeamOfUser_char requestedToo_eq ownParticipation_def resolves_def viewOf_def
      participants_by_team_def join_requests_by_team_def
      get_team_def get_competition_def example_defs)

section \<open>The join-request validator\<close>

text \<open>
  C5. When the inviting team has at least four Participant rows and the joiner is not one
  of its members, \<open>validateTeamJoinRequest\<close> returns FULL, whatever the join requests and
  whatever the joiner's own team: neither is read before the answer.
\<close>

theorem validate_FULL:
  assumes "\<forall>p\<in>set (participants db). p_team p = t_id inviterTeam \<longrightarrow> p_user p \<noteq> u_id joiner"
    and "4 \<le> length (filter (\<lambda>p. p_team p = t_id inviterTeam) (participants db))"
  shows "validateTeamJoinRequest db inviterTeam joiner = Inr FULL"
proof -
  have "\<not> (findIndex (\<lambda>item. p_user item = u_id joiner)
              (participants_by_team db (t_id inviterTeam)) > - 1)"
    using assms(1) by (auto simp: findIndex_found participants_by_team_def)
  then show ?thesis
    using assms(2) by (simp add: validateTeamJoinRequest_def Let_def participants_by_team_def)
qed

theorem validate_FULL_witness:
  "length (filter (\<lambda>p. p_team p = t_id teamT2) (participants crowded)) = 4
   \<and> validateTeamJoinRequest crowded teamT2 userA = Inr FULL"
proof -
  have h1: "\<forall>p\<in>set (participants crowded). p_team p = t_id teamT2 \<longrightarrow> p_user p \<noteq> u_id userA"
    by (simp add: crowded_def example_defs)
  have h2: "length (filter (\<lambda>p. p_team p = t_id teamT2) (participants crowded)) = 4"
    by (simp add: crowded_def example_defs)
  from h2 have h3: "4 \<le> length (filter (\<lambda>p. p_team p = t_id teamT2) (participants crowded))"
    by simp
  from validate_FULL [OF h1 h3] h2 show ?thesis by simp
qed

text \<open>
  C6. When the joiner is not a member of the inviting team and the team has fewer than
  four Participant rows, \<open>validateTeamJoinRequest\<close> throws "The user is not in the
  competition" exactly when no Participant row of the joiner points at an existing team
  of the inviting team's competition whose competition row exists; it throws nothing
  else. A row whose team or competition is gone does not count: the listing drops it.
\<close>

theorem validate_error_iff:
  assumes "\<forall>p\<in>set (participants db). p_team p = t_id inviterTeam \<longrightarrow> p_user p \<noteq> u_id joiner"
    and "length (filter (\<lambda>p. p_team p = t_id inviterTeam) (participants db)) < 4"
  shows "(validateTeamJoinRequest db inviterTeam joiner = Inl UserNotInCompetition) =
           (\<not> (\<exists>p\<in>set (participants db). p_user p = u_id joiner \<and>
                 (\<exists>t c. get_team db (p_team p) = Some t \<and>
                        get_competition db (competition t) = Some c \<and>
                        competition t = competition inviterTeam)))
       \<and> (\<forall>e. validateTeamJoinRequest db inviterTeam joiner = Inl e \<longrightarrow> e = UserNotInCompetition)"
proof -
  have a: "\<not> (\<exists>p\<in>set (participants db). p_team p = t_id inviterTeam \<and> p_user p = u_id joiner)"
    using assms(1) by auto
  have b: "\<not> 4 \<le> length (participants_by_team db (t_id inviterTeam))"
    using assms(2) by (simp add: participants_by_team_def)
  have c: "(ownParticipation db (u_id joiner) (competition inviterTeam) = None) =
           (\<not> (\<exists>p\<in>set (participants db). p_user p = u_id joiner \<and>
                 (\<exists>t c. get_team db (p_team p) = Some t \<and>
                        get_competition db (competition t) = Some c \<and>
                        competition t = competition inviterTeam)))"
    by (simp add: ownParticipation_None resolves_iff)
  show ?thesis
    unfolding c [symmetric] validate_char
    using a b by (auto split: option.splits list.splits)
qed

theorem validate_error_iff_witness:
  "get_team stranded 10 = None
   \<and> validateTeamJoinRequest stranded teamT2 userA = Inl UserNotInCompetition
   \<and> get_competition orphaned 1 = None
   \<and> validateTeamJoinRequest orphaned teamT2 userA = Inl UserNotInCompetition
   \<and> validateTeamJoinRequest invited teamT2 userA = Inr INVITED"
proof -
  have s: "stranded = invited\<lparr>teams := [teamT2]\<rparr>" by (simp add: stranded_def)
  have o1: "\<forall>p\<in>set (participants orphaned). p_team p = t_id teamT2 \<longrightarrow> p_user p \<noteq> u_id userA"
    by (simp add: orphaned_def invited_eq example_defs)
  have o2: "length (filter (\<lambda>p. p_team p = t_id teamT2) (participants orphaned)) < 4"
    by (simp add: orphaned_def invited_eq example_defs)
  have og: "get_competition orphaned 1 = None"
    by (simp add: orphaned_def get_competition_def)
  have oa: "validateTeamJoinRequest orphaned teamT2 userA = Inl UserNotInCompetition"
    using validate_error_iff [OF o1 o2]
    by (simp add: orphaned_def invited_eq get_team_def get_competition_def example_defs)
  have h1: "\<forall>p\<in>set (participants stranded). p_team p = t_id teamT2 \<longrightarrow> p_user p \<noteq> u_id userA"
    by (simp add: s invited_eq example_defs)
  have h2: "length (filter (\<lambda>p. p_team p = t_id teamT2) (participants stranded)) < 4"
    by (simp add: s invited_eq example_defs)
  have h3: "\<forall>p\<in>set (participants invited). p_team p = t_id teamT2 \<longrightarrow> p_user p \<noteq> u_id userA"
    by (simp add: invited_eq example_defs)
  have h4: "length (filter (\<lambda>p. p_team p = t_id teamT2) (participants invited)) < 4"
    by (simp add: invited_eq example_defs)
  have g: "get_team stranded 10 = None"
    by (simp add: s get_team_def example_defs)
  have a: "validateTeamJoinRequest stranded teamT2 userA = Inl UserNotInCompetition"
    using validate_error_iff [OF h1 h2]
    by (simp add: s invited_eq get_team_def get_competition_def example_defs)
  have "validateTeamJoinRequest invited teamT2 userA \<noteq> Inl UserNotInCompetition"
    using validate_error_iff [OF h3 h4]
    by (simp add: invited_eq get_team_def get_competition_def example_defs)
  moreover have "validateTeamJoinRequest invited teamT2 userA = Inr INVITED"
    by (simp add: invited_eq eval_defs example_defs)
  ultimately show ?thesis using g a og oa by simp
qed

text \<open>
  C9. When the joiner is not a member of the inviting team, the team has fewer than four
  Participant rows and the joiner has a team in the competition, \<open>validateTeamJoinRequest\<close>
  returns COMMITTED exactly when the joiner's own team has more than one member. The
  answer is the same whatever the \<open>join_requests\<close> table holds.
\<close>

theorem validate_COMMITTED_iff:
  assumes "\<forall>p\<in>set (participants db). p_team p = t_id inviterTeam \<longrightarrow> p_user p \<noteq> u_id joiner"
    and "length (filter (\<lambda>p. p_team p = t_id inviterTeam) (participants db)) < 4"
    and "findTeamOfUser db joiner (competition inviterTeam) = Inr (Some joinerTeam)"
  shows "(validateTeamJoinRequest db inviterTeam joiner = Inr COMMITTED) =
           (1 < length (members joinerTeam))
       \<and> (\<forall>jrs. (validateTeamJoinRequest (db\<lparr>join_requests := jrs\<rparr>) inviterTeam joiner =
                    Inr COMMITTED) =
                  (1 < length (members joinerTeam)))"
proof -
  have a: "\<not> (\<exists>p\<in>set (participants db). p_team p = t_id inviterTeam \<and> p_user p = u_id joiner)"
    using assms(1) by auto
  have b: "\<not> 4 \<le> length (participants_by_team db (t_id inviterTeam))"
    using assms(2) by (simp add: participants_by_team_def)
  from assms(3) obtain p
    where p: "ownParticipation db (u_id joiner) (competition inviterTeam) = Some p"
      and jt: "joinerTeam = viewOf db p"
    by (auto simp: findTeamOfUser_char)
  have m: "length (members joinerTeam) = length (participants_by_team db (p_team p))"
    by (simp add: jt members_viewOf)
  have "(validateTeamJoinRequest (db\<lparr>join_requests := jrs\<rparr>) inviterTeam joiner = Inr COMMITTED) =
        (1 < length (members joinerTeam))" for jrs
    unfolding validate_char
    by (simp add: a b p m ownParticipation_join_requests participants_by_team_join_requests
        split: list.splits)
  from this this [of "join_requests db"] show ?thesis by simp
qed

theorem validate_COMMITTED_iff_witness:
  "validateTeamJoinRequest scenario teamT1 userB = Inr COMMITTED
   \<and> validateTeamJoinRequest invited teamT1 userB = Inr COMMITTED
   \<and> validateTeamJoinRequest scenario teamT2 userA \<noteq> Inr COMMITTED"
proof -
  have h1: "\<forall>p\<in>set (participants scenario). p_team p = t_id teamT1 \<longrightarrow> p_user p \<noteq> u_id userB"
    by (simp add: example_defs)
  have h2: "length (filter (\<lambda>p. p_team p = t_id teamT1) (participants scenario)) < 4"
    by (simp add: example_defs)
  have k1: "\<forall>p\<in>set (participants scenario). p_team p = t_id teamT2 \<longrightarrow> p_user p \<noteq> u_id userA"
    by (simp add: example_defs)
  have k2: "length (filter (\<lambda>p. p_team p = t_id teamT2) (participants scenario)) < 4"
    by (simp add: example_defs)
  have j: "validateTeamJoinRequest invited teamT1 userB =
           validateTeamJoinRequest (scenario\<lparr>join_requests := join_requests invited\<rparr>) teamT1 userB"
    by (simp add: invited_eq eval_defs example_defs)
  from validate_COMMITTED_iff [OF h1 h2 own_team_of_userB]
    validate_COMMITTED_iff [OF k1 k2 own_team_of_userA]
  show ?thesis
    by (simp add: j)
qed

text \<open>
  C1, as the claim has it: with the joiner not a member, the roster below four and the
  joiner's own team of one member, the validator would answer REQUESTED whenever a
  JoinRequest with \<open>userConsent\<close> only exists between the pair. It does not when an
  earlier row exists: the lookup takes the first row of the pair. After the invitation and
  the user's own request through the recorder, a row with \<open>userConsent\<close> only exists and
  the answer is INVITED.
\<close>

theorem validate_by_request_counterexample:
  "filter (\<lambda>p. p_team p = t_id teamT2 \<and> p_user p = u_id userA) (participants requestedToo) = []
   \<and> length (filter (\<lambda>p. p_team p = t_id teamT2) (participants requestedToo)) = 2
   \<and> findTeamOfUser requestedToo userA (competition teamT2) =
       Inr (Some \<lparr>t_id = 10, competition = 1, members = [\<lparr>u_id = 1\<rparr>],
                  joinRequests = [], userMembership = \<lparr>p_id = 100, p_user = 1, p_team = 10\<rparr>\<rparr>)
   \<and> \<lparr>jr_id = 202, jr_team = t_id teamT2, jr_user = u_id userA, userConsent = True,
        teamConsent = False\<rparr> \<in> set (join_requests requestedToo)
   \<and> validateTeamJoinRequest requestedToo teamT2 userA = Inr INVITED
   \<and> validateTeamJoinRequest requestedToo teamT2 userA \<noteq> Inr REQUESTED"
proof -
  have v: "validateTeamJoinRequest requestedToo teamT2 userA = Inr INVITED"
    by (simp add: requestedToo_eq eval_defs example_defs)
  have r: "filter (\<lambda>p. p_team p = t_id teamT2 \<and> p_user p = u_id userA) (participants requestedToo) = []
     \<and> length (filter (\<lambda>p. p_team p = t_id teamT2) (participants requestedToo)) = 2
     \<and> \<lparr>jr_id = 202, jr_team = t_id teamT2, jr_user = u_id userA, userConsent = True,
        teamConsent = False\<rparr> \<in> set (join_requests requestedToo)"
    by (simp add: requestedToo_eq example_defs)
  from v r own_team_of_userA_requestedToo show ?thesis by simp
qed

text \<open>
  C1, amended: when the joiner is not a member of the inviting team, the team has fewer
  than four Participant rows and the joiner's own team in the competition has exactly one
  member, \<open>validateTeamJoinRequest\<close> returns VALID when no JoinRequest exists between the
  pair; otherwise the earliest JoinRequest between the pair decides: ACCEPTED when it has
  both consents, INVITED when it has \<open>teamConsent\<close> only, REQUESTED when it has
  \<open>userConsent\<close> only, and VALID when it has neither. When at most one JoinRequest exists
  between the pair, any one that exists is that earliest row.
\<close>

theorem validate_by_first_request:
  assumes "\<forall>p\<in>set (participants db). p_team p = t_id inviterTeam \<longrightarrow> p_user p \<noteq> u_id joiner"
    and "length (filter (\<lambda>p. p_team p = t_id inviterTeam) (participants db)) < 4"
    and "findTeamOfUser db joiner (competition inviterTeam) = Inr (Some joinerTeam)"
    and "length (members joinerTeam) = 1"
  shows "((\<forall>r\<in>set (join_requests db). \<not> (jr_team r = t_id inviterTeam \<and> jr_user r = u_id joiner)) \<longrightarrow>
            validateTeamJoinRequest db inviterTeam joiner = Inr VALID)
       \<and> (\<forall>r rs. requestsBetween db (t_id inviterTeam) (u_id joiner) = r # rs \<longrightarrow>
            (teamConsent r \<and> userConsent r \<longrightarrow>
               validateTeamJoinRequest db inviterTeam joiner = Inr ACCEPTED)
          \<and> (teamConsent r \<and> \<not> userConsent r \<longrightarrow>
               validateTeamJoinRequest db inviterTeam joiner = Inr INVITED)
          \<and> (\<not> teamConsent r \<and> userConsent r \<longrightarrow>
               validateTeamJoinRequest db inviterTeam joiner = Inr REQUESTED)
          \<and> (\<not> teamConsent r \<and> \<not> userConsent r \<longrightarrow>
               validateTeamJoinRequest db inviterTeam joiner = Inr VALID))
       \<and> (length (requestsBetween db (t_id inviterTeam) (u_id joiner)) \<le> 1 \<longrightarrow>
           (\<forall>r\<in>set (join_requests db). jr_team r = t_id inviterTeam \<and> jr_user r = u_id joiner \<longrightarrow>
              requestsBetween db (t_id inviterTeam) (u_id joiner) = [r]))"
proof -
  have a: "\<not> (\<exists>p\<in>set (participants db). p_team p = t_id inviterTeam \<and> p_user p = u_id joiner)"
    using assms(1) by auto
  have b: "\<not> 4 \<le> length (participants_by_team db (t_id inviterTeam))"
    using assms(2) by (simp add: participants_by_team_def)
  from assms(3) obtain p
    where p: "ownParticipation db (u_id joiner) (competition inviterTeam) = Some p"
      and jt: "joinerTeam = viewOf db p"
    by (auto simp: findTeamOfUser_char)
  have m: "length (participants_by_team db (p_team p)) = 1"
    using assms(4) by (simp add: jt members_viewOf)
  have v: "validateTeamJoinRequest db inviterTeam joiner =
        (case requestsBetween db (t_id inviterTeam) (u_id joiner) of
           [] \<Rightarrow> Inr VALID
         | r # _ \<Rightarrow>
             if teamConsent r \<and> userConsent r then Inr ACCEPTED
             else if teamConsent r then Inr INVITED
             else if userConsent r then Inr REQUESTED
             else Inr VALID)"
    unfolding validate_char by (simp add: a b p m)
  have none: "validateTeamJoinRequest db inviterTeam joiner = Inr VALID"
    if "\<forall>r\<in>set (join_requests db). \<not> (jr_team r = t_id inviterTeam \<and> jr_user r = u_id joiner)"
  proof -
    from that have "requestsBetween db (t_id inviterTeam) (u_id joiner) = []"
      by (auto simp: requestsBetween_def filter_empty_conv)
    then show ?thesis by (simp add: v)
  qed
  have one: "requestsBetween db (t_id inviterTeam) (u_id joiner) = [r]"
    if "length (requestsBetween db (t_id inviterTeam) (u_id joiner)) \<le> 1"
      "r \<in> set (join_requests db)" "jr_team r = t_id inviterTeam" "jr_user r = u_id joiner" for r
  proof -
    from that have "r \<in> set (requestsBetween db (t_id inviterTeam) (u_id joiner))"
      by (simp add: requestsBetween_def)
    with that(1) show ?thesis
      by (cases "requestsBetween db (t_id inviterTeam) (u_id joiner)") auto
  qed
  have first_row: "(teamConsent r \<and> userConsent r \<longrightarrow>
               validateTeamJoinRequest db inviterTeam joiner = Inr ACCEPTED)
          \<and> (teamConsent r \<and> \<not> userConsent r \<longrightarrow>
               validateTeamJoinRequest db inviterTeam joiner = Inr INVITED)
          \<and> (\<not> teamConsent r \<and> userConsent r \<longrightarrow>
               validateTeamJoinRequest db inviterTeam joiner = Inr REQUESTED)
          \<and> (\<not> teamConsent r \<and> \<not> userConsent r \<longrightarrow>
               validateTeamJoinRequest db inviterTeam joiner = Inr VALID)"
    if "requestsBetween db (t_id inviterTeam) (u_id joiner) = r # rs" for r rs
    by (simp add: v that)
  from none first_row one show ?thesis by blast
qed

theorem validate_by_first_request_witness:
  "validateTeamJoinRequest scenario teamT2 userA = Inr VALID
   \<and> validateTeamJoinRequest invited teamT2 userA = Inr INVITED
   \<and> length (requestsBetween requestedToo (t_id teamT2) (u_id userA)) = 2
   \<and> validateTeamJoinRequest requestedToo teamT2 userA = Inr INVITED"
proof -
  have h1: "\<forall>p\<in>set (participants scenario). p_team p = t_id teamT2 \<longrightarrow> p_user p \<noteq> u_id userA"
    by (simp add: example_defs)
  have h2: "length (filter (\<lambda>p. p_team p = t_id teamT2) (participants scenario)) < 4"
    by (simp add: example_defs)
  have h4: "length (members \<lparr>t_id = 10, competition = 1, members = [\<lparr>u_id = 1\<rparr>],
                 joinRequests = [], userMembership = \<lparr>p_id = 100, p_user = 1, p_team = 10\<rparr>\<rparr>) = 1"
    by simp
  have k1: "\<forall>p\<in>set (participants invited). p_team p = t_id teamT2 \<longrightarrow> p_user p \<noteq> u_id userA"
    by (simp add: invited_eq example_defs)
  have k2: "length (filter (\<lambda>p. p_team p = t_id teamT2) (participants invited)) < 4"
    by (simp add: invited_eq example_defs)
  have l1: "\<forall>p\<in>set (participants requestedToo). p_team p = t_id teamT2 \<longrightarrow> p_user p \<noteq> u_id userA"
    by (simp add: requestedToo_eq example_defs)
  have l2: "length (filter (\<lambda>p. p_team p = t_id teamT2) (participants requestedToo)) < 4"
    by (simp add: requestedToo_eq example_defs)
  have rb1: "requestsBetween invited (t_id teamT2) (u_id userA) =
      [\<lparr>jr_id = 200, jr_team = 20, jr_user = 1, userConsent = False, teamConsent = True\<rparr>]"
    by (simp add: invited_eq requestsBetween_def example_defs)
  have rb2: "requestsBetween requestedToo (t_id teamT2) (u_id userA) =
      [\<lparr>jr_id = 200, jr_team = 20, jr_user = 1, userConsent = False, teamConsent = True\<rparr>,
       \<lparr>jr_id = 202, jr_team = 20, jr_user = 1, userConsent = True, teamConsent = False\<rparr>]"
    by (simp add: requestedToo_eq requestsBetween_def example_defs)
  from validate_by_first_request [OF h1 h2 own_team_of_userA h4]
  have a: "validateTeamJoinRequest scenario teamT2 userA = Inr VALID"
    by (simp add: example_defs)
  from validate_by_first_request [OF k1 k2 own_team_of_userA_invited h4]
  have b: "validateTeamJoinRequest invited teamT2 userA = Inr INVITED"
    by (simp add: rb1)
  from validate_by_first_request [OF l1 l2 own_team_of_userA_requestedToo h4]
  have c: "validateTeamJoinRequest requestedToo teamT2 userA = Inr INVITED"
    by (simp add: rb2)
  from a b c rb2 show ?thesis by simp
qed

section \<open>The join-request recorder\<close>

text \<open>
  C7. When the caller's identity resolves, \<open>recordJoinRequest\<close> appends one JoinRequest
  row for the team and the joiner, with \<open>userConsent\<close> the negation of \<open>teamConsent\<close>,
  appends one JoinMessage of that request carrying the pitch, leaves the other tables as
  they are, and returns the identifier of the new JoinRequest row. When no message
  referred to the new identifier before, the pitch is the only message of the thread.
\<close>

theorem record_creates:
  assumes "verifyUser db a = Inr user"
  shows "fst (recordJoinRequest db a inviterTeamId joinerId pitch tc) = Inr (next_id db)
       \<and> join_requests (snd (recordJoinRequest db a inviterTeamId joinerId pitch tc)) =
           join_requests db @ [\<lparr>jr_id = next_id db, jr_team = inviterTeamId, jr_user = joinerId,
                                userConsent = (\<not> tc), teamConsent = tc\<rparr>]
       \<and> join_messages (snd (recordJoinRequest db a inviterTeamId joinerId pitch tc)) =
           join_messages db @ [\<lparr>jm_id = Suc (next_id db), join_request = next_id db,
                                sender = u_id user, message = pitch\<rparr>]
       \<and> competitions (snd (recordJoinRequest db a inviterTeamId joinerId pitch tc)) = competitions db
       \<and> teams (snd (recordJoinRequest db a inviterTeamId joinerId pitch tc)) = teams db
       \<and> participants (snd (recordJoinRequest db a inviterTeamId joinerId pitch tc)) = participants db
       \<and> ((\<forall>m\<in>set (join_messages db). join_request m \<noteq> next_id db) \<longrightarrow>
            filter (\<lambda>m. join_request m = next_id db)
              (join_messages (snd (recordJoinRequest db a inviterTeamId joinerId pitch tc))) =
            [\<lparr>jm_id = Suc (next_id db), join_request = next_id db, sender = u_id user,
              message = pitch\<rparr>])"
  using assms
  by (auto simp: recordJoinRequest_def insert_join_request_def insert_join_message_def
      filter_empty_conv)

theorem record_creates_witness:
  "fst (recordJoinRequest scenario (Some userB) 20 1 ''join us'' True) = Inr 200
   \<and> join_requests invited =
       [\<lparr>jr_id = 200, jr_team = 20, jr_user = 1, userConsent = False, teamConsent = True\<rparr>]
   \<and> join_messages invited =
       [\<lparr>jm_id = 201, join_request = 200, sender = 2, message = ''join us''\<rparr>]
   \<and> filter (\<lambda>m. join_request m = 200) (join_messages invited) =
       [\<lparr>jm_id = 201, join_request = 200, sender = 2, message = ''join us''\<rparr>]"
proof -
  have h: "verifyUser scenario (Some userB) = Inr userB" by (simp add: verifyUser_def)
  from record_creates [OF h, of 20 1 "''join us''" True] show ?thesis
    by (simp add: invited_def example_defs)
qed

text \<open>
  C4, as the claim has it: in the scenario, after team 20 has invited user 1, the recorder
  called from the user's side would set \<open>userConsent\<close> of the existing row, leave one row
  for the pair, and the validator would answer ACCEPTED. It does not: \<open>recordJoinRequest\<close>
  only inserts. In the state it leaves there are two rows for the pair, the invitation
  is as it was, and the validator still answers INVITED.
\<close>

theorem record_user_side_counterexample:
  "join_requests requestedToo =
     [\<lparr>jr_id = 200, jr_team = 20, jr_user = 1, userConsent = False, teamConsent = True\<rparr>,
      \<lparr>jr_id = 202, jr_team = 20, jr_user = 1, userConsent = True, teamConsent = False\<rparr>]
   \<and> length (requestsBetween requestedToo (t_id teamT2) (u_id userA)) = 2
   \<and> validateTeamJoinRequest requestedToo teamT2 userA = Inr INVITED
   \<and> validateTeamJoinRequest requestedToo teamT2 userA \<noteq> Inr ACCEPTED"
  by (simp add: requestedToo_def invited_eq recordJoinRequest_def verifyUser_def
      insert_join_request_def insert_join_message_def eval_defs example_defs)

text \<open>
  C4, amended: when the validator answers INVITED for a team and a joiner (a JoinRequest
  with \<open>teamConsent\<close> only is the first between them) and the caller's identity resolves,
  \<open>recordJoinRequest\<close> called from the user's side (\<open>teamConsent = False\<close>) leaves every
  existing row as it is and appends a second row for the pair, with \<open>userConsent\<close> only.
  Afterwards at least two JoinRequests exist between the pair and the validator still
  answers INVITED.
\<close>

theorem record_beside_existing:
  assumes "verifyUser db a = Inr user"
    and "validateTeamJoinRequest db inviterTeam joiner = Inr INVITED"
  shows "join_requests (snd (recordJoinRequest db a (t_id inviterTeam) (u_id joiner) pitch False)) =
           join_requests db @ [\<lparr>jr_id = next_id db, jr_team = t_id inviterTeam, jr_user = u_id joiner,
                                userConsent = True, teamConsent = False\<rparr>]
       \<and> length (requestsBetween (snd (recordJoinRequest db a (t_id inviterTeam) (u_id joiner) pitch False))
                   (t_id inviterTeam) (u_id joiner)) =
           Suc (length (requestsBetween db (t_id inviterTeam) (u_id joiner)))
       \<and> 2 \<le> length (requestsBetween (snd (recordJoinRequest db a (t_id inviterTeam) (u_id joiner) pitch False))
                        (t_id inviterTeam) (u_id joiner))
       \<and> validateTeamJoinRequest (snd (recordJoinRequest db a (t_id inviterTeam) (u_id joiner) pitch False))
           inviterTeam joiner = Inr INVITED"
proof -
  let ?t = "t_id inviterTeam" and ?u = "u_id joiner"
  let ?new = "\<lparr>jr_id = next_id db, jr_team = ?t, jr_user = ?u, userConsent = True, teamConsent = False\<rparr>"
  define db' where "db' = snd (recordJoinRequest db a ?t ?u pitch False)"
  have jr: "join_requests db' = join_requests db @ [?new]"
    and tabs: "competitions db' = competitions db" "teams db' = teams db"
      "participants db' = participants db"
    using assms(1)
    by (simp_all add: db'_def recordJoinRequest_def insert_join_request_def insert_join_message_def)
  note st = same_tables [OF tabs]
  have rb: "requestsBetween db' ?t ?u = requestsBetween db ?t ?u @ [?new]"
    by (simp add: requestsBetween_def jr)
  from assms(2) obtain r rs where ne: "requestsBetween db ?t ?u = r # rs"
    by (cases "requestsBetween db ?t ?u") (auto simp: validate_char split: if_splits option.splits)
  have "validateTeamJoinRequest db' inviterTeam joiner = validateTeamJoinRequest db inviterTeam joiner"
    unfolding validate_char st tabs rb ne by (auto split: option.splits)
  with assms(2) jr rb ne show ?thesis
    unfolding db'_def [symmetric] by simp
qed

theorem record_beside_existing_witness:
  "validateTeamJoinRequest invited teamT2 userA = Inr INVITED
   \<and> length (requestsBetween requestedToo (t_id teamT2) (u_id userA)) = 2
   \<and> validateTeamJoinRequest requestedToo teamT2 userA = Inr INVITED"
proof -
  have h1: "verifyUser invited (Some userA) = Inr userA" by (simp add: verifyUser_def)
  have h2: "validateTeamJoinRequest invited teamT2 userA = Inr INVITED"
    by (simp add: invited_eq eval_defs example_defs)
  have r: "requestedToo =
      snd (recordJoinRequest invited (Some userA) (t_id teamT2) (u_id userA) ''let me in'' False)"
    by (simp add: requestedToo_def example_defs)
  have n: "length (requestsBetween invited (t_id teamT2) (u_id userA)) = 1"
    by (simp add: invited_eq requestsBetween_def example_defs)
  from record_beside_existing [OF h1 h2, of "''let me in''"] h2 n show ?thesis
    unfolding r [symmetric] by simp
qed

section \<open>The membership mutator\<close>

text \<open>
  C2, as the claim has it: after every call of \<open>addUserToTeam\<close> that completes without
  error, no JoinRequest would exist between the user and the inviting team. It does not
  hold when the pair has several: only the first row of the query is deleted. After the
  invitation and the user's own request through the recorder, the call completes and the
  user's request remains.
\<close>

theorem addUserToTeam_duplicate_counterexample:
  "fst (addUserToTeam requestedToo userA teamT2) = Inr ()
   \<and> length (requestsBetween requestedToo (t_id teamT2) (u_id userA)) = 2
   \<and> requestsBetween (snd (addUserToTeam requestedToo userA teamT2)) (t_id teamT2) (u_id userA) =
       [\<lparr>jr_id = 202, jr_team = 20, jr_user = 1, userConsent = True, teamConsent = False\<rparr>]
   \<and> requestsBetween (snd (addUserToTeam requestedToo userA teamT2)) (t_id teamT2) (u_id userA) \<noteq> []"
  by (simp add: addUserToTeam_char requestedToo_eq withoutRequest_def delete_join_request_def
      delete_team_def patch_participant_team_def eval_defs example_defs)

text \<open>
  C2, amended: when \<open>addUserToTeam\<close> completes without error, then with \<open>prior\<close> the
  user's team in the competition before the call: the earliest JoinRequest between the
  inviting team and the user has been deleted (with every row of its identifier) and the
  later ones of the pair remain, so that no JoinRequest exists between the pair afterwards
  when at most one existed before; the user's Participant row, and no row with another
  identifier, has been repointed at the inviting team; the row of the prior team is gone
  exactly when the prior team had one member; otherwise the \<open>teams\<close> table is as it was,
  and, the inviting team being another one, the prior team keeps the rows of its other
  members.
\<close>

theorem addUserToTeam_completes:
  assumes "addUserToTeam db user invitingTeam = (Inr (), db')"
  shows "\<exists>prior. findTeamOfUser db user (competition invitingTeam) = Inr (Some prior)
       \<and> requestsBetween db' (t_id invitingTeam) (u_id user) =
           (case requestsBetween db (t_id invitingTeam) (u_id user) of
              [] \<Rightarrow> []
            | r # rs \<Rightarrow> filter (\<lambda>x. jr_id x \<noteq> jr_id r) rs)
       \<and> (length (requestsBetween db (t_id invitingTeam) (u_id user)) \<le> 1 \<longrightarrow>
            requestsBetween db' (t_id invitingTeam) (u_id user) = [])
       \<and> participants db' =
           map (\<lambda>q. if p_id q = p_id (userMembership prior) then q\<lparr>p_team := t_id invitingTeam\<rparr> else q)
             (participants db)
       \<and> (userMembership prior)\<lparr>p_team := t_id invitingTeam\<rparr> \<in> set (participants db')
       \<and> ((\<forall>t\<in>set (teams db'). t_id t \<noteq> t_id prior) = (length (members prior) = 1))
       \<and> (length (members prior) \<noteq> 1 \<longrightarrow> teams db' = teams db)
       \<and> (length (members prior) \<noteq> 1 \<and> t_id invitingTeam \<noteq> t_id prior \<longrightarrow>
            participants_by_team db' (t_id prior) =
              filter (\<lambda>q. p_id q \<noteq> p_id (userMembership prior)) (participants_by_team db (t_id prior)))"
proof -
  let ?t = "t_id invitingTeam" and ?u = "u_id user"
  let ?db1 = "withoutRequest db ?t ?u"
  from assms(1) obtain p where p: "ownParticipation db ?u (competition invitingTeam) = Some p"
    and db': "db' = (if length (participants_by_team db (p_team p)) = 1
                     then delete_team (patch_participant_team ?db1 (p_id p) ?t) (p_team p)
                     else patch_participant_team ?db1 (p_id p) ?t)"
    by (auto simp: addUserToTeam_char split: option.splits)
  let ?prior = "viewOf db p"
  have f: "findTeamOfUser db user (competition invitingTeam) = Inr (Some ?prior)"
    by (simp add: findTeamOfUser_char p)
  have jr: "join_requests db' = join_requests ?db1"
    by (simp add: db' delete_team_def patch_participant_team_def)
  have "requestsBetween db' ?t ?u = requestsBetween ?db1 ?t ?u"
    by (simp add: requestsBetween_def jr)
  then have a: "requestsBetween db' ?t ?u =
           (case requestsBetween db ?t ?u of
              [] \<Rightarrow> []
            | r # rs \<Rightarrow> filter (\<lambda>x. jr_id x \<noteq> jr_id r) rs)"
    by (simp add: withoutRequest_between)
  have a': "length (requestsBetween db ?t ?u) \<le> 1 \<longrightarrow> requestsBetween db' ?t ?u = []"
    unfolding a by (cases "requestsBetween db ?t ?u") auto
  have b: "participants db' =
      map (\<lambda>q. if p_id q = p_id p then q\<lparr>p_team := ?t\<rparr> else q) (participants db)"
    by (simp add: db' delete_team_def patch_participant_team_def withoutRequest_tables)
  from ownParticipation_resolves [OF p] have pin: "p \<in> set (participants db)"
    and res: "resolves db (competition invitingTeam) (p_team p)" by simp_all
  from pin have c: "p\<lparr>p_team := ?t\<rparr> \<in> set (participants db')"
    unfolding b by (auto simp: image_iff intro!: bexI [of _ p])
  from resolves_team [OF res] obtain t where "get_team db (p_team p) = Some t" by blast
  then have ex: "\<exists>t\<in>set (teams db). t_id t = p_team p"
    using get_team_Some_ex [of db "p_team p"] by auto
  have tm: "teams db' = (if length (participants_by_team db (p_team p)) = 1
                         then filter (\<lambda>t. t_id t \<noteq> p_team p) (teams db) else teams db)"
    by (simp add: db' delete_team_def patch_participant_team_def withoutRequest_tables)
  have d: "(\<forall>t\<in>set (teams db'). t_id t \<noteq> p_team p) =
           (length (participants_by_team db (p_team p)) = 1)"
    using ex by (auto simp: tm)
  have e: "length (participants_by_team db (p_team p)) \<noteq> 1 \<longrightarrow> teams db' = teams db"
    by (simp add: tm)
  have g: "?t \<noteq> p_team p \<longrightarrow>
        participants_by_team db' (p_team p) =
          filter (\<lambda>q. p_id q \<noteq> p_id p) (participants_by_team db (p_team p))"
    by (simp add: participants_by_team_def b patched_roster)
  show ?thesis
    using f a a' b c d e g
    by (intro exI [of _ ?prior]) (simp add: viewOf_fields)
qed

theorem addUserToTeam_completes_witness:
  "fst (addUserToTeam invited userA teamT2) = Inr ()
   \<and> requestsBetween (snd (addUserToTeam invited userA teamT2)) 20 1 = []
   \<and> participants (snd (addUserToTeam invited userA teamT2)) =
       [\<lparr>p_id = 100, p_user = 1, p_team = 20\<rparr>,
        \<lparr>p_id = 101, p_user = 2, p_team = 20\<rparr>,
        \<lparr>p_id = 102, p_user = 3, p_team = 20\<rparr>]
   \<and> list_all (\<lambda>t. t_id t \<noteq> 10) (teams (snd (addUserToTeam invited userA teamT2)))
   \<and> fst (addUserToTeam scenario userB teamT1) = Inr ()
   \<and> teams (snd (addUserToTeam scenario userB teamT1)) = [teamT1, teamT2]
   \<and> participants_by_team (snd (addUserToTeam scenario userB teamT1)) 20 =
       [\<lparr>p_id = 102, p_user = 3, p_team = 20\<rparr>]
   \<and> fst (addUserToTeam requestedToo userA teamT2) = Inr ()
   \<and> requestsBetween (snd (addUserToTeam requestedToo userA teamT2)) 20 1 =
       [\<lparr>jr_id = 202, jr_team = 20, jr_user = 1, userConsent = True, teamConsent = False\<rparr>]"
proof -
  have o1: "fst (addUserToTeam invited userA teamT2) = Inr ()"
    by (simp add: addUserToTeam_char invited_eq ownParticipation_def resolves_def
        get_team_def get_competition_def example_defs)
  have o2: "fst (addUserToTeam scenario userB teamT1) = Inr ()"
    by (simp add: addUserToTeam_char ownParticipation_def resolves_def
        get_team_def get_competition_def example_defs)
  have o3: "fst (addUserToTeam requestedToo userA teamT2) = Inr ()"
    by (simp add: addUserToTeam_char requestedToo_eq ownParticipation_def resolves_def
        get_team_def get_competition_def example_defs)
  have h1: "addUserToTeam invited userA teamT2 = (Inr (), snd (addUserToTeam invited userA teamT2))"
    using o1 by (simp add: prod_eq_iff)
  have h2: "addUserToTeam scenario userB teamT1 = (Inr (), snd (addUserToTeam scenario userB teamT1))"
    using o2 by (simp add: prod_eq_iff)
  have h3: "addUserToTeam requestedToo userA teamT2 =
      (Inr (), snd (addUserToTeam requestedToo userA teamT2))"
    using o3 by (simp add: prod_eq_iff)
  have rb1: "requestsBetween invited (t_id teamT2) (u_id userA) =
      [\<lparr>jr_id = 200, jr_team = 20, jr_user = 1, userConsent = False, teamConsent = True\<rparr>]"
    by (simp add: invited_eq requestsBetween_def example_defs)
  have rb2: "requestsBetween requestedToo (t_id teamT2) (u_id userA) =
      [\<lparr>jr_id = 200, jr_team = 20, jr_user = 1, userConsent = False, teamConsent = True\<rparr>,
       \<lparr>jr_id = 202, jr_team = 20, jr_user = 1, userConsent = True, teamConsent = False\<rparr>]"
    by (simp add: requestedToo_eq requestsBetween_def example_defs)
  from addUserToTeam_completes [OF h1]
  have a: "requestsBetween (snd (addUserToTeam invited userA teamT2)) 20 1 = []
     \<and> participants (snd (addUserToTeam invited userA teamT2)) =
       [\<lparr>p_id = 100, p_user = 1, p_team = 20\<rparr>,
        \<lparr>p_id = 101, p_user = 2, p_team = 20\<rparr>,
        \<lparr>p_id = 102, p_user = 3, p_team = 20\<rparr>]
     \<and> list_all (\<lambda>t. t_id t \<noteq> 10) (teams (snd (addUserToTeam invited userA teamT2)))"
    by (simp add: own_team_of_userA_invited list_all_iff rb1) (simp add: invited_eq example_defs)
  from addUserToTeam_completes [OF h2]
  have b: "teams (snd (addUserToTeam scenario userB teamT1)) = [teamT1, teamT2]
     \<and> participants_by_team (snd (addUserToTeam scenario userB teamT1)) 20 =
       [\<lparr>p_id = 102, p_user = 3, p_team = 20\<rparr>]"
    by (simp add: own_team_of_userB) (simp add: participants_by_team_def example_defs)
  from addUserToTeam_completes [OF h3]
  have c: "requestsBetween (snd (addUserToTeam requestedToo userA teamT2)) 20 1 =
       [\<lparr>jr_id = 202, jr_team = 20, jr_user = 1, userConsent = True, teamConsent = False\<rparr>]"
    by (simp add: rb2) (auto simp: example_defs)
  from o1 o2 o3 a b c show ?thesis by simp
qed

text \<open>
  C3, as the claim has it: a failing \<open>addUserToTeam\<close> would leave the state unchanged, no
  JoinRequest row deleted. It does not: the request is deleted before the user's team is
  looked up. With the invitation standing and the user's participation dangling, the call
  throws "The user is not in the competition" and the invitation is gone from the store
  the function was given.
\<close>

theorem addUserToTeam_failure_counterexample:
  "fst (addUserToTeam stranded userA teamT2) = Inl UserNotInCompetition
   \<and> join_requests stranded =
       [\<lparr>jr_id = 200, jr_team = 20, jr_user = 1, userConsent = False, teamConsent = True\<rparr>]
   \<and> join_requests (snd (addUserToTeam stranded userA teamT2)) = []
   \<and> snd (addUserToTeam stranded userA teamT2) \<noteq> stranded"
proof -
  have o: "ownParticipation stranded (u_id userA) (competition teamT2) = None"
    by (simp add: stranded_def invited_eq ownParticipation_def resolves_def get_team_def example_defs)
  have j: "join_requests stranded =
       [\<lparr>jr_id = 200, jr_team = 20, jr_user = 1, userConsent = False, teamConsent = True\<rparr>]"
    by (simp add: stranded_def invited_eq example_defs)
  have w: "join_requests (withoutRequest stranded (t_id teamT2) (u_id userA)) = []"
    by (simp add: withoutRequest_def requestsBetween_def delete_join_request_def j)
      (simp add: example_defs)
  have "snd (addUserToTeam stranded userA teamT2) \<noteq> stranded"
  proof
    assume "snd (addUserToTeam stranded userA teamT2) = stranded"
    then have "join_requests (snd (addUserToTeam stranded userA teamT2)) = join_requests stranded"
      by simp
    then show False by (simp add: addUserToTeam_char o w j)
  qed
  then show ?thesis
    by (simp add: addUserToTeam_char o w j)
qed

text \<open>
  C3, amended: for every starting state \<open>addUserToTeam\<close> does one of two things. Either
  the user has a team in the inviting team's competition, and all steps are applied: the
  first JoinRequest of the pair is deleted, the user's Participant row is repointed, and
  the prior team is deleted when it had one member. Or the user has none, the call throws
  "The user is not in the competition", and the first step alone has been applied to the
  store: the first JoinRequest of the pair, if there is one, has been deleted, and the
  other tables are as they were. The function does not undo that deletion.
\<close>

theorem addUserToTeam_outcome:
  "(\<exists>prior. findTeamOfUser db user (competition invitingTeam) = Inr (Some prior)
      \<and> addUserToTeam db user invitingTeam =
          (Inr (),
           if length (members prior) = 1
           then delete_team
                  (patch_participant_team (withoutRequest db (t_id invitingTeam) (u_id user))
                     (p_id (userMembership prior)) (t_id invitingTeam))
                  (t_id prior)
           else patch_participant_team (withoutRequest db (t_id invitingTeam) (u_id user))
                  (p_id (userMembership prior)) (t_id invitingTeam)))
   \<or> (findTeamOfUser db user (competition invitingTeam) = Inr None
      \<and> addUserToTeam db user invitingTeam =
          (Inl UserNotInCompetition, withoutRequest db (t_id invitingTeam) (u_id user))
      \<and> competitions (withoutRequest db (t_id invitingTeam) (u_id user)) = competitions db
      \<and> teams (withoutRequest db (t_id invitingTeam) (u_id user)) = teams db
      \<and> participants (withoutRequest db (t_id invitingTeam) (u_id user)) = participants db
      \<and> join_messages (withoutRequest db (t_id invitingTeam) (u_id user)) = join_messages db
      \<and> join_requests (withoutRequest db (t_id invitingTeam) (u_id user)) =
          (case requestsBetween db (t_id invitingTeam) (u_id user) of
             [] \<Rightarrow> join_requests db
           | r # rs \<Rightarrow> filter (\<lambda>x. jr_id x \<noteq> jr_id r) (join_requests db)))"
proof (cases "ownParticipation db (u_id user) (competition invitingTeam)")
  case None
  have "join_requests (withoutRequest db (t_id invitingTeam) (u_id user)) =
          (case requestsBetween db (t_id invitingTeam) (u_id user) of
             [] \<Rightarrow> join_requests db
           | r # rs \<Rightarrow> filter (\<lambda>x. jr_id x \<noteq> jr_id r) (join_requests db))"
    by (simp add: withoutRequest_def delete_join_request_def split: list.splits)
  with None show ?thesis
    by (simp add: addUserToTeam_char findTeamOfUser_char withoutRequest_tables)
next
  case (Some p)
  then show ?thesis
    by (simp add: addUserToTeam_char findTeamOfUser_char viewOf_fields)
qed

theorem addUserToTeam_outcome_witness:
  "addUserToTeam stranded userA teamT2 =
     (Inl UserNotInCompetition, stranded\<lparr>join_requests := []\<rparr>)
   \<and> fst (addUserToTeam invited userA teamT2) = Inr ()
   \<and> teams (snd (addUserToTeam invited userA teamT2)) = [teamT2]
   \<and> participants (snd (addUserToTeam invited userA teamT2)) =
       [\<lparr>p_id = 100, p_user = 1, p_team = 20\<rparr>,
        \<lparr>p_id = 101, p_user = 2, p_team = 20\<rparr>,
        \<lparr>p_id = 102, p_user = 3, p_team = 20\<rparr>]
   \<and> join_requests (snd (addUserToTeam invited userA teamT2)) = []"
proof -
  have f1: "findTeamOfUser stranded userA (competition teamT2) = Inr None"
    by (simp add: findTeamOfUser_char stranded_def invited_eq ownParticipation_def resolves_def
        get_team_def example_defs)
  have w1: "withoutRequest stranded (t_id teamT2) (u_id userA) = stranded\<lparr>join_requests := []\<rparr>"
    by (simp add: withoutRequest_def requestsBetween_def delete_join_request_def stranded_def
        invited_eq example_defs)
  have w2: "withoutRequest invited (t_id teamT2) (u_id userA) = invited\<lparr>join_requests := []\<rparr>"
    by (simp add: withoutRequest_def requestsBetween_def delete_join_request_def
        invited_eq example_defs)
  from addUserToTeam_outcome [of stranded userA teamT2]
  have a: "addUserToTeam stranded userA teamT2 =
      (Inl UserNotInCompetition, stranded\<lparr>join_requests := []\<rparr>)"
    by (simp add: f1 w1)
  from addUserToTeam_outcome [of invited userA teamT2]
  have b: "addUserToTeam invited userA teamT2 =
      (Inr (), delete_team (patch_participant_team (invited\<lparr>join_requests := []\<rparr>) 100 (t_id teamT2)) 10)"
    by (simp add: own_team_of_userA_invited w2)
  show ?thesis
    unfolding a b
    by (simp add: delete_team_def patch_participant_team_def invited_eq example_defs)
qed

section \<open>The cross-chat access guard\<close>

text \<open>
  C10. When no team row has the identifier the join request refers to,
  \<open>validateCrossChatParticipation\<close> returns no boolean: \<open>verifyTeam\<close> throws the
  not-found error (code 404) before membership is looked at.
\<close>

theorem crosschat_missing_team:
  assumes "\<forall>t\<in>set (teams db). t_id t \<noteq> jr_team joinRequestInfo"
  shows "validateCrossChatParticipation db joinRequestInfo viewer = Inl TeamDoesNotExist"
  using assms
  by (simp add: validateCrossChatParticipation_def verifyTeam_def get_team_None [symmetric])

theorem crosschat_missing_team_witness:
  "validateCrossChatParticipation stranded
     \<lparr>jr_id = 300, jr_team = 10, jr_user = 3, userConsent = True, teamConsent = False\<rparr> 1 =
   Inl TeamDoesNotExist"
proof -
  have "\<forall>t\<in>set (teams stranded). t_id t \<noteq>
          jr_team \<lparr>jr_id = 300, jr_team = 10, jr_user = 3, userConsent = True, teamConsent = False\<rparr>"
    by (simp add: stranded_def example_defs)
  from crosschat_missing_team [OF this] show ?thesis .
qed

text \<open>
  C8. When the team of the join request exists, \<open>validateCrossChatParticipation\<close> returns
  true exactly when the viewer has a Participant row in that team in the state it is
  called on, or is the joining user of the request. A former member, whose row points
  elsewhere by now, and who is not the joining user, gets false.
\<close>

theorem crosschat_iff:
  assumes "t \<in> set (teams db)" and "t_id t = jr_team joinRequestInfo"
  shows "validateCrossChatParticipation db joinRequestInfo viewer =
           Inr ((\<exists>p\<in>set (participants db). p_team p = jr_team joinRequestInfo \<and> p_user p = viewer)
                \<or> jr_user joinRequestInfo = viewer)"
proof -
  from assms have "\<exists>t. get_team db (jr_team joinRequestInfo) = Some t"
    by (auto simp: get_team_Some_ex)
  then obtain t' where t': "get_team db (jr_team joinRequestInfo) = Some t'" ..
  show ?thesis
    by (auto simp: validateCrossChatParticipation_def verifyTeam_def t'
        convertToUserDocumentArray_def participants_by_team_def list_ex_iff)
qed

theorem crosschat_iff_witness:
  "validateCrossChatParticipation scenario
     \<lparr>jr_id = 300, jr_team = 20, jr_user = 1, userConsent = False, teamConsent = True\<rparr> 2 = Inr True
   \<and> validateCrossChatParticipation scenario
     \<lparr>jr_id = 300, jr_team = 20, jr_user = 1, userConsent = False, teamConsent = True\<rparr> 1 = Inr True
   \<and> validateCrossChatParticipation scenario
     \<lparr>jr_id = 300, jr_team = 20, jr_user = 1, userConsent = False, teamConsent = True\<rparr> 7 = Inr False
   \<and> validateCrossChatParticipation moved
     \<lparr>jr_id = 300, jr_team = 20, jr_user = 1, userConsent = False, teamConsent = True\<rparr> 2 = Inr False"
proof -
  have h1: "teamT2 \<in> set (teams scenario)" by (simp add: example_defs)
  have h2: "t_id teamT2 =
        jr_team \<lparr>jr_id = 300, jr_team = 20, jr_user = 1, userConsent = False, teamConsent = True\<rparr>"
    by (simp add: example_defs)
  have h3: "teamT2 \<in> set (teams moved)" by (simp add: moved_eq example_defs)
  note w = crosschat_iff [OF h1 h2]
  note v = crosschat_iff [OF h3 h2]
  from w [of 2] w [of 1] w [of 7] v [of 2] show ?thesis
    by (simp add: moved_eq example_defs)
qed

end
